theory Spec2Isabelle
  imports Complex_Main "HOL-Library.Monad_Syntax" "HOL-Library.AList"
begin

section \<open>JavaScript values\<close>

text \<open>
  The mappers of \<^verbatim>\<open>server.js\<close> work on loosely typed rows and payloads, so the
  embedding starts from a datatype of JavaScript values. A number is a finite real, an
  infinity or NaN. An object is the list of its own properties in insertion order; a key
  may be present with the value \<open>undefined\<close>, which differs from an absent key.
\<close>

datatype jsnum = NaN | PosInfinity | NegInfinity | Finite real

datatype jsval =
    JUndefined
  | JNull
  | JBool bool
  | JNum jsnum
  | JStr string
  | JArray "jsval list"
  | JObject "(string \<times> jsval) list"

type_synonym props = "(string \<times> jsval) list"

text \<open>
  Language built-ins whose full definition lies outside the repository are parameters:
  \<open>ToNumber_ext\<close> is \<^verbatim>\<open>Number(v)\<close> on a string, array or object,
  \<open>JSON_parse\<close> is \<^verbatim>\<open>JSON.parse(v)\<close> (\<open>None\<close> when it throws), and
  \<open>ToString_ext\<close> is the string a number, array or object becomes as a property key.
\<close>

record builtins =
  ToNumber_ext :: "jsval \<Rightarrow> jsnum"
  JSON_parse :: "jsval \<Rightarrow> jsval option"
  ToString_ext :: "jsval \<Rightarrow> string"

fun truthy :: "jsval \<Rightarrow> bool" where
  "truthy JUndefined = False"
| "truthy JNull = False"
| "truthy (JBool b) = b"
| "truthy (JNum NaN) = False"
| "truthy (JNum (Finite r)) = (r \<noteq> 0)"
| "truthy (JNum PosInfinity) = True"
| "truthy (JNum NegInfinity) = True"
| "truthy (JStr s) = (s \<noteq> [])"
| "truthy (JArray xs) = True"
| "truthy (JObject kv) = True"

definition nullish :: "jsval \<Rightarrow> bool" where
  "nullish v = (v = JUndefined \<or> v = JNull)"

text \<open>\<^verbatim>\<open>a ?? b\<close> and \<^verbatim>\<open>a || b\<close>.\<close>

definition coalesce :: "jsval \<Rightarrow> jsval \<Rightarrow> jsval" where
  "coalesce a b = (if nullish a then b else a)"

definition js_or :: "jsval \<Rightarrow> jsval \<Rightarrow> jsval" where
  "js_or a b = (if truthy a then a else b)"

fun typeof_js :: "jsval \<Rightarrow> string" where
  "typeof_js JUndefined = ''undefined''"
| "typeof_js JNull = ''object''"
| "typeof_js (JBool b) = ''boolean''"
| "typeof_js (JNum n) = ''number''"
| "typeof_js (JStr s) = ''string''"
| "typeof_js (JArray xs) = ''object''"
| "typeof_js (JObject kv) = ''object''"

text \<open>\<^verbatim>\<open>Number(v)\<close>.\<close>

fun Number_js :: "builtins \<Rightarrow> jsval \<Rightarrow> jsnum" where
  "Number_js B JUndefined = NaN"
| "Number_js B JNull = Finite 0"
| "Number_js B (JBool b) = (if b then Finite 1 else Finite 0)"
| "Number_js B (JNum n) = n"
| "Number_js B v = ToNumber_ext B v"

text \<open>
  Own-property lookup in a property list: an absent key reads as \<open>undefined\<close>.
\<close>

definition lookup :: "props \<Rightarrow> string \<Rightarrow> jsval" where
  "lookup kv k = (case map_of kv k of None \<Rightarrow> JUndefined | Some v \<Rightarrow> v)"

text \<open>
  \<^verbatim>\<open>v.k\<close> and the destructuring \<^verbatim>\<open>const { k } = v\<close>: a TypeError (\<open>None\<close>)
  on \<open>null\<close> and \<open>undefined\<close>, the own property of an object, and
  \<open>undefined\<close> for the named fields the mappers read on any other value (they read
  neither \<open>length\<close> nor an index, and inherited members are not modelled).
\<close>

fun get :: "jsval \<Rightarrow> string \<Rightarrow> jsval option" where
  "get JUndefined k = None"
| "get JNull k = None"
| "get (JObject kv) k = Some (lookup kv k)"
| "get v k = Some JUndefined"

text \<open>\<^verbatim>\<open>if (v !== undefined) dbObj.k = v;\<close>\<close>

definition set_if_defined :: "string \<Rightarrow> jsval \<Rightarrow> props \<Rightarrow> props" where
  "set_if_defined k v dbObj = (if v \<noteq> JUndefined then AList.update k v dbObj else dbObj)"

section \<open>Entity mappers (server.js)\<close>

definition safeJsonParse :: "builtins \<Rightarrow> jsval \<Rightarrow> jsval \<Rightarrow> jsval" where
  "safeJsonParse B v fallback =
     (if nullish v then fallback
      else if typeof_js v = ''object'' then v
      else (case JSON_parse B v of Some parsed \<Rightarrow> parsed | None \<Rightarrow> fallback))"

subsection \<open>Row to API shape\<close>

definition dbUserToApi :: "builtins \<Rightarrow> jsval \<Rightarrow> jsval option" where
  "dbUserToApi B row =
     (if \<not> truthy row then Some JNull
      else do {
        id \<leftarrow> get row ''id'';
        name \<leftarrow> get row ''name'';
        email \<leftarrow> get row ''email'';
        password \<leftarrow> get row ''password'';
        role \<leftarrow> get row ''role'';
        avatar_url \<leftarrow> get row ''avatar_url'';
        avatarUrl \<leftarrow> get row ''avatarUrl'';
        is_verified \<leftarrow> get row ''is_verified'';
        isVerified \<leftarrow> get row ''isVerified'';
        phone_number \<leftarrow> get row ''phone_number'';
        phoneNumber \<leftarrow> get row ''phoneNumber'';
        media_name \<leftarrow> get row ''media_name'';
        mediaName \<leftarrow> get row ''mediaName'';
        position \<leftarrow> get row ''position'';
        ukw_certification \<leftarrow> get row ''ukw_certification'';
        ukwCertification \<leftarrow> get row ''ukwCertification'';
        Some (JObject
          [(''id'', id),
           (''name'', name),
           (''email'', email),
           (''password'', password),
           (''role'', role),
           (''avatarUrl'', coalesce (coalesce avatar_url avatarUrl) JNull),
           (''isVerified'',
              JNum (Number_js B (coalesce (coalesce is_verified isVerified) (JNum (Finite 0))))),
           (''phoneNumber'', coalesce (coalesce phone_number phoneNumber) JNull),
           (''mediaName'', coalesce (coalesce media_name mediaName) JNull),
           (''position'', coalesce position JNull),
           (''ukwCertification'', coalesce (coalesce ukw_certification ukwCertification) JNull)])
      })"

definition dbPartnerToApi :: "jsval \<Rightarrow> jsval option" where
  "dbPartnerToApi row =
     (if \<not> truthy row then Some JNull
      else do {
        id \<leftarrow> get row ''id'';
        name \<leftarrow> get row ''name'';
        logo_url \<leftarrow> get row ''logo_url'';
        logoUrl \<leftarrow> get row ''logoUrl'';
        link \<leftarrow> get row ''link'';
        Some (JObject
          [(''id'', id),
           (''name'', name),
           (''logoUrl'', coalesce (coalesce logo_url logoUrl) JNull),
           (''link'', coalesce link JNull)])
      })"

definition dbStructureToApi :: "jsval \<Rightarrow> jsval option" where
  "dbStructureToApi row =
     (if \<not> truthy row then Some JNull
      else do {
        id \<leftarrow> get row ''id'';
        name \<leftarrow> get row ''name'';
        position \<leftarrow> get row ''position'';
        photo_url \<leftarrow> get row ''photo_url'';
        photoUrl \<leftarrow> get row ''photoUrl'';
        Some (JObject
          [(''id'', id),
           (''name'', name),
           (''position'', position),
           (''photoUrl'', coalesce (coalesce photo_url photoUrl) JNull)])
      })"

definition dbArticleToApi :: "jsval \<Rightarrow> jsval option" where
  "dbArticleToApi row =
     (if \<not> truthy row then Some JNull
      else do {
        cover_image_url \<leftarrow> get row ''cover_image_url'';
        coverImageUrl \<leftarrow> get row ''coverImageUrl'';
        imageUrl \<leftarrow> get row ''imageUrl'';
        let cover = coalesce (coalesce (coalesce cover_image_url coverImageUrl) imageUrl) JNull;
        id \<leftarrow> get row ''id'';
        title \<leftarrow> get row ''title'';
        content \<leftarrow> get row ''content'';
        snippet \<leftarrow> get row ''snippet'';
        status \<leftarrow> get row ''status'';
        authorId \<leftarrow> get row ''authorId'';
        editor_feedback \<leftarrow> get row ''editor_feedback'';
        editorFeedback \<leftarrow> get row ''editorFeedback'';
        Some (JObject
          [(''id'', id),
           (''title'', title),
           (''content'', content),
           (''snippet'', snippet),
           (''status'', status),
           (''authorId'', authorId),
           (''editorFeedback'', coalesce (coalesce editor_feedback editorFeedback) JNull),
           (''coverImageUrl'', cover),
           (''imageUrl'', cover)])
      })"

definition formatContactFromRow :: "builtins \<Rightarrow> jsval \<Rightarrow> jsval option" where
  "formatContactFromRow B row =
     (if \<not> truthy row then Some JNull
      else do {
        socials_raw \<leftarrow> get row ''socials'';
        let socials = safeJsonParse B socials_raw (JObject []);
        organizationName \<leftarrow> get row ''organizationName'';
        address \<leftarrow> get row ''address'';
        email \<leftarrow> get row ''email'';
        phone \<leftarrow> get row ''phone'';
        logo_url \<leftarrow> get row ''logo_url'';
        favicon_url \<leftarrow> get row ''favicon_url'';
        Some (JObject
          [(''organizationName'', js_or organizationName (JStr '''')),
           (''address'', js_or address (JStr '''')),
           (''email'', js_or email (JStr '''')),
           (''phone'', js_or phone (JStr '''')),
           (''siteLogo'', js_or logo_url (JStr '''')),
           (''faviconUrl'', js_or favicon_url (JStr '''')),
           (''socials'', socials)])
      })"

subsection \<open>API payload to persisted columns\<close>

definition apiArticleToDb :: "jsval \<Rightarrow> jsval option" where
  "apiArticleToDb payload =
     do {
       let src = js_or payload (JObject []);
       id \<leftarrow> get src ''id'';
       title \<leftarrow> get src ''title'';
       content \<leftarrow> get src ''content'';
       snippet \<leftarrow> get src ''snippet'';
       status \<leftarrow> get src ''status'';
       authorId \<leftarrow> get src ''authorId'';
       editorFeedback \<leftarrow> get src ''editorFeedback'';
       coverImageUrl \<leftarrow> get src ''coverImageUrl'';
       imageUrl \<leftarrow> get src ''imageUrl'';
       let dbObj = [];
       let dbObj = set_if_defined ''title'' title dbObj;
       let dbObj = set_if_defined ''content'' content dbObj;
       let dbObj = set_if_defined ''snippet'' snippet dbObj;
       let dbObj = set_if_defined ''status'' status dbObj;
       let dbObj = set_if_defined ''authorId'' authorId dbObj;
       let dbObj = set_if_defined ''editor_feedback'' editorFeedback dbObj;
       let cover = coalesce coverImageUrl imageUrl;
       let dbObj = set_if_defined ''cover_image_url'' cover dbObj;
       let dbObj = set_if_defined ''id'' id dbObj;
       Some (JObject dbObj)
     }"

definition apiUserToDb :: "builtins \<Rightarrow> jsval \<Rightarrow> jsval option" where
  "apiUserToDb B payload =
     do {
       let src = js_or payload (JObject []);
       name \<leftarrow> get src ''name'';
       email \<leftarrow> get src ''email'';
       password \<leftarrow> get src ''password'';
       role \<leftarrow> get src ''role'';
       avatarUrl \<leftarrow> get src ''avatarUrl'';
       formalPhotoUrl \<leftarrow> get src ''formalPhotoUrl'';
       isVerified \<leftarrow> get src ''isVerified'';
       phoneNumber \<leftarrow> get src ''phoneNumber'';
       mediaName \<leftarrow> get src ''mediaName'';
       position \<leftarrow> get src ''position'';
       ukwCertification \<leftarrow> get src ''ukwCertification'';
       let dbObj = [];
       let dbObj = set_if_defined ''name'' name dbObj;
       let dbObj = set_if_defined ''email'' email dbObj;
       let dbObj = set_if_defined ''password'' password dbObj;
       let dbObj = set_if_defined ''role'' role dbObj;
       let avatar = coalesce formalPhotoUrl avatarUrl;
       let dbObj = set_if_defined ''avatar_url'' avatar dbObj;
       let dbObj =
         (if isVerified \<noteq> JUndefined
          then AList.update ''is_verified''
                 (JNum (Number_js B (JNum (Finite (if truthy isVerified then 1 else 0))))) dbObj
          else dbObj);
       let dbObj = set_if_defined ''phone_number'' phoneNumber dbObj;
       let dbObj = set_if_defined ''media_name'' mediaName dbObj;
       let dbObj = set_if_defined ''position'' position dbObj;
       let dbObj = set_if_defined ''ukw_certification'' ukwCertification dbObj;
       Some (JObject dbObj)
     }"

definition apiStructureToDb :: "jsval \<Rightarrow> jsval option" where
  "apiStructureToDb item =
     do {
       let src = js_or item (JObject []);
       id \<leftarrow> get src ''id'';
       name \<leftarrow> get src ''name'';
       position \<leftarrow> get src ''position'';
       photoUrl \<leftarrow> get src ''photoUrl'';
       let dbObj = [(''name'', name), (''position'', position), (''photo_url'', photoUrl)];
       let dbObj = set_if_defined ''id'' id dbObj;
       Some (JObject dbObj)
     }"

definition apiPartnerToDb :: "jsval \<Rightarrow> jsval option" where
  "apiPartnerToDb item =
     do {
       let src = js_or item (JObject []);
       id \<leftarrow> get src ''id'';
       name \<leftarrow> get src ''name'';
       logoUrl \<leftarrow> get src ''logoUrl'';
       link \<leftarrow> get src ''link'';
       let dbObj = [(''name'', name), (''logo_url'', logoUrl), (''link'', link)];
       let dbObj = set_if_defined ''id'' id dbObj;
       Some (JObject dbObj)
     }"

section \<open>Resilient aggregate fetch (server.js, /api/all-data)\<close>

text \<open>
  The pool is the store seen from one request: each query text either resolves to its
  rows (row objects) or rejects. The reads are independent, so the concurrency of
  \<^verbatim>\<open>Promise.all\<close> is not part of the model; it keeps the positions of its inputs and
  rejects as soon as one of them rejects.
\<close>

datatype db_error = DbError string

type_synonym pool = "string \<Rightarrow> db_error + props list"

definition safeQuery :: "pool \<Rightarrow> string \<Rightarrow> db_error + props list" where
  "safeQuery pool query =
     (case pool query of
        Inr rows \<Rightarrow> Inr rows
      | Inl err \<Rightarrow> Inr [])"

fun Promise_all :: "('e + 'a) list \<Rightarrow> 'e + 'a list" where
  "Promise_all [] = Inr []"
| "Promise_all (p # ps) =
     (case p of
        Inl e \<Rightarrow> Inl e
      | Inr x \<Rightarrow> (case Promise_all ps of Inl e \<Rightarrow> Inl e | Inr xs \<Rightarrow> Inr (x # xs)))"

definition fetchAll :: "pool \<Rightarrow> string list \<Rightarrow> db_error + props list list" where
  "fetchAll pool queries = Promise_all (map (safeQuery pool) queries)"

definition all_data_queries :: "string list" where
  "all_data_queries =
     [''SELECT * FROM users'',
      ''SELECT * FROM articles'',
      ''SELECT * FROM site_profile LIMIT 1'',
      ''SELECT * FROM contact_info LIMIT 1'',
      ''SELECT * FROM programs'',
      ''SELECT * FROM structure'',
      ''SELECT * FROM announcements'',
      ''SELECT * FROM gallery'',
      ''SELECT * FROM comments'',
      ''SELECT * FROM notifications'',
      ''SELECT * FROM inspiration_notes'',
      ''SELECT * FROM partners'',
      ''SELECT * FROM legal_content'']"

text \<open>The key under which \<^verbatim>\<open>acc[v] = ...\<close> stores.\<close>

fun ToPropertyKey :: "builtins \<Rightarrow> jsval \<Rightarrow> string" where
  "ToPropertyKey B (JStr s) = s"
| "ToPropertyKey B JUndefined = ''undefined''"
| "ToPropertyKey B JNull = ''null''"
| "ToPropertyKey B (JBool b) = (if b then ''true'' else ''false'')"
| "ToPropertyKey B v = ToString_ext B v"

definition legalContent :: "builtins \<Rightarrow> props list \<Rightarrow> jsval" where
  "legalContent B legalContentRows =
     JObject (fold
       (\<lambda>row acc. AList.update (ToPropertyKey B (lookup row ''page_key''))
          (JObject [(''title'', lookup row ''title''), (''content'', lookup row ''content'')]) acc)
       legalContentRows [])"

definition formattedProfile :: "builtins \<Rightarrow> props list \<Rightarrow> jsval" where
  "formattedProfile B profileContentRows =
     (case profileContentRows of
        [] \<Rightarrow> JNull
      | rawProfile # _ \<Rightarrow>
          (let mission = lookup rawProfile ''mission'';
               missionData =
                 (if typeof_js mission = ''string''
                  then (case JSON_parse B mission of Some parsed \<Rightarrow> parsed | None \<Rightarrow> JArray [])
                  else js_or mission (JArray []))
           in JObject
             [(''about'', js_or (lookup rawProfile ''about'') (JStr '''')),
              (''vision'', js_or (lookup rawProfile ''vision'') (JStr '''')),
              (''mission'', missionData),
              (''purpose'', js_or (lookup rawProfile ''purpose'') (JStr '''')),
              (''legality'', JObject
                 [(''text'', js_or (lookup rawProfile ''legality_text'') (JStr '''')),
                  (''sk'', js_or (lookup rawProfile ''legality_sk'') (JStr ''''))]),
              (''adArt'', js_or (lookup rawProfile ''ad_art'') (JStr ''''))]))"

definition formattedContact :: "builtins \<Rightarrow> props list \<Rightarrow> jsval option" where
  "formattedContact B contactInfoRows =
     (case contactInfoRows of
        [] \<Rightarrow> Some JNull
      | row # _ \<Rightarrow> formatContactFromRow B (JObject row))"

text \<open>
  The handler answers 200 with the composite payload; anything thrown inside its outer
  \<^verbatim>\<open>try\<close> becomes the 500 answer.
\<close>

datatype response = Json200 jsval | Json500

definition rows_json :: "props list \<Rightarrow> jsval" where
  "rows_json rows = JArray (map JObject rows)"

definition all_data_body :: "builtins \<Rightarrow> props list list \<Rightarrow> jsval option" where
  "all_data_body B results =
     (case results of
        [usersRows, articles, profileContentRows, contactInfoRows, programs, structureRows,
         announcements, galleryImages, comments, notifications, inspirationNotes,
         partnersRows, legalContentRows] \<Rightarrow>
          do {
            let legal = legalContent B legalContentRows;
            let profile = formattedProfile B profileContentRows;
            contact \<leftarrow> formattedContact B contactInfoRows;
            users \<leftarrow> those (map (\<lambda>row. dbUserToApi B (JObject row)) usersRows);
            partners \<leftarrow> those (map (\<lambda>row. dbPartnerToApi (JObject row)) partnersRows);
            structure \<leftarrow> those (map (\<lambda>row. dbStructureToApi (JObject row)) structureRows);
            articlesApi \<leftarrow> those (map (\<lambda>row. dbArticleToApi (JObject row)) articles);
            Some (JObject
              [(''users'', JArray users),
               (''articles'', JArray articlesApi),
               (''profileContent'', profile),
               (''contactInfo'', contact),
               (''programs'', rows_json programs),
               (''structure'', JArray structure),
               (''announcements'', rows_json announcements),
               (''galleryImages'', rows_json galleryImages),
               (''comments'', rows_json comments),
               (''notifications'', rows_json notifications),
               (''inspirationNotes'', rows_json inspirationNotes),
               (''partners'', JArray partners),
               (''legalContent'', legal)])
          }
      | _ \<Rightarrow> None)"

definition all_data :: "builtins \<Rightarrow> pool \<Rightarrow> response" where
  "all_data B pool =
     (case fetchAll pool all_data_queries of
        Inl err \<Rightarrow> Json500
      | Inr results \<Rightarrow>
          (case all_data_body B results of
             Some body \<Rightarrow> Json200 body
           | None \<Rightarrow> Json500))"

section \<open>Schema reconciler (seed script)\<close>

text \<open>
  The store as the seed script sees it. A table is the list of its columns in order, each
  with its name as written, its definition and its stored cells (\<open>None\<close> for a column
  added with no data). MySQL compares column names without regard to letter case, and
  \<^verbatim>\<open>SHOW COLUMNS FROM t LIKE ?\<close> reads its parameter as a pattern: \<^verbatim>\<open>%\<close> stands for any
  run of characters, \<^verbatim>\<open>_\<close> for any one character, and a backslash makes the character
  after it literal. Names are taken to be ASCII.
\<close>

datatype 'd column = Column (col_definition: string) (col_cells: "'d option")

type_synonym 'd table = "(string \<times> 'd column) list"

type_synonym 'd schema = "string \<rightharpoonup> 'd table"

datatype sql_error =
    NoSuchTable string
  | UnknownColumn string
  | DuplicateColumn string
  | Refused

datatype stmt =
    ChangeColumn string string string string
  | AddColumn string string string

definition lower_char :: "char \<Rightarrow> char" where
  "lower_char c =
     (case map_of (zip ''ABCDEFGHIJKLMNOPQRSTUVWXYZ'' ''abcdefghijklmnopqrstuvwxyz'') c of
        Some l \<Rightarrow> l
      | None \<Rightarrow> c)"

definition fold_case :: "string \<Rightarrow> string" where
  "fold_case s = map lower_char s"

definition same_name :: "string \<Rightarrow> string \<Rightarrow> bool" where
  "same_name a b = (fold_case a = fold_case b)"

fun sql_like :: "string \<Rightarrow> string \<Rightarrow> bool" where
  "sql_like [] s = (s = [])"
| "sql_like (p # ps) s =
     (if p = CHR ''%'' then
        sql_like ps s \<or> (case s of [] \<Rightarrow> False | c # t \<Rightarrow> sql_like (p # ps) t)
      else if p = CHR ''_'' then
        (case s of [] \<Rightarrow> False | c # t \<Rightarrow> sql_like ps t)
      else if p = CHR 0x5C then
        (case ps of
           [] \<Rightarrow> s = [p]
         | q # qs \<Rightarrow> (case s of [] \<Rightarrow> False | c # t \<Rightarrow> c = q \<and> sql_like qs t))
      else
        (case s of [] \<Rightarrow> False | c # t \<Rightarrow> c = p \<and> sql_like ps t))"

definition has_column :: "'d table \<Rightarrow> string \<Rightarrow> bool" where
  "has_column cols name = (\<exists>n \<in> set (map fst cols). same_name n name)"

definition show_columns :: "'d schema \<Rightarrow> string \<Rightarrow> string \<Rightarrow> sql_error + string list" where
  "show_columns conn tbl pat =
     (case conn tbl of
        None \<Rightarrow> Inl (NoSuchTable tbl)
      | Some cols \<Rightarrow> Inr (filter (\<lambda>n. sql_like (fold_case pat) (fold_case n)) (map fst cols)))"

definition rename_column :: "string \<Rightarrow> string \<Rightarrow> string \<Rightarrow> 'd table \<Rightarrow> 'd table" where
  "rename_column old new defn cols =
     map (\<lambda>(n, c). if same_name n old then (new, Column defn (col_cells c)) else (n, c)) cols"

text \<open>
  The two alterations. Each fails on the column set as MySQL does (unknown source,
  existing target), and the store may refuse a statement for a reason that the column set
  does not show, such as stored data that do not fit the new definition: \<open>refuses\<close> says
  which statements it refuses in which state. Schema changes made by other sessions while
  the script runs are outside the model.
\<close>

fun exec_stmt :: "(stmt \<Rightarrow> 'd schema \<Rightarrow> bool) \<Rightarrow> stmt \<Rightarrow> 'd schema \<Rightarrow> sql_error + 'd schema" where
  "exec_stmt refuses (ChangeColumn tbl old new defn) conn =
     (case conn tbl of
        None \<Rightarrow> Inl (NoSuchTable tbl)
      | Some cols \<Rightarrow>
          if \<not> has_column cols old then Inl (UnknownColumn old)
          else if \<not> same_name old new \<and> has_column cols new then Inl (DuplicateColumn new)
          else if refuses (ChangeColumn tbl old new defn) conn then Inl Refused
          else Inr (conn(tbl \<mapsto> rename_column old new defn cols)))"
| "exec_stmt refuses (AddColumn tbl new defn) conn =
     (case conn tbl of
        None \<Rightarrow> Inl (NoSuchTable tbl)
      | Some cols \<Rightarrow>
          if has_column cols new then Inl (DuplicateColumn new)
          else if refuses (AddColumn tbl new defn) conn then Inl Refused
          else Inr (conn(tbl \<mapsto> cols @ [(new, Column defn None)])))"

text \<open>
  \<^verbatim>\<open>ensureColumn\<close> returns the store it leaves behind and the schema statements it
  issued. A failed existence query is not caught and propagates (\<open>Inl\<close>); a failed
  alteration is caught, so the statement counts as issued and the store is unchanged.
\<close>

definition ensureColumn ::
  "(stmt \<Rightarrow> 'd schema \<Rightarrow> bool) \<Rightarrow> 'd schema \<Rightarrow> string \<Rightarrow> string \<Rightarrow> string \<Rightarrow> string
     \<Rightarrow> sql_error + ('d schema \<times> stmt list)" where
  "ensureColumn refuses conn tbl oldName newName defn =
     (case show_columns conn tbl oldName of
        Inl e \<Rightarrow> Inl e
      | Inr oldRows \<Rightarrow>
          (case show_columns conn tbl newName of
             Inl e \<Rightarrow> Inl e
           | Inr newRows \<Rightarrow>
               (let oldExists = (length oldRows > 0);
                    newExists = (length newRows > 0)
                in if oldExists \<and> \<not> newExists \<and> oldName \<noteq> newName then
                     (case exec_stmt refuses (ChangeColumn tbl oldName newName defn) conn of
                        Inr conn' \<Rightarrow> Inr (conn', [ChangeColumn tbl oldName newName defn])
                      | Inl e \<Rightarrow> Inr (conn, [ChangeColumn tbl oldName newName defn]))
                   else if \<not> oldExists \<and> \<not> newExists then
                     (case exec_stmt refuses (AddColumn tbl newName defn) conn of
                        Inr conn' \<Rightarrow> Inr (conn', [AddColumn tbl newName defn])
                      | Inl e \<Rightarrow> Inr (conn, [AddColumn tbl newName defn]))
                   else if oldExists \<and> newExists then Inr (conn, [])
                   else if newExists then Inr (conn, [])
                   else Inr (conn, []))))"

text \<open>A directive is one call of \<^verbatim>\<open>ensureColumn\<close>; the script runs them in order.\<close>

datatype directive =
  Directive (dir_table: string) (dir_old: string) (dir_new: string) (dir_def: string)



section \<open>Notions used to state the properties\<close>

text \<open>
  The value a property read resolves to once the row is known not to be \<open>null\<close> or
  \<open>undefined\<close>.
\<close>

definition own :: "jsval \<Rightarrow> string \<Rightarrow> jsval" where
  "own v k = (case v of JObject kv \<Rightarrow> lookup kv k | _ \<Rightarrow> JUndefined)"

text \<open>
  The fallback chain in the words of the specification: the first value that is not
  missing (neither \<open>undefined\<close> nor \<open>null\<close>), else the default.
\<close>

fun first_present :: "jsval list \<Rightarrow> jsval \<Rightarrow> jsval" where
  "first_present [] dflt = dflt"
| "first_present (v # vs) dflt = (if nullish v then first_present vs dflt else v)"

text \<open>
  An instance of the built-ins for running examples. It answers as the language does on
  the values the examples pass (\<^verbatim>\<open>JSON.parse\<close> rejects \<^verbatim>\<open>not-json\<close> and reads
  \<^verbatim>\<open>[]\<close> and \<^verbatim>\<open>{}\<close>); no general property is proved about it.
\<close>

definition example_builtins :: builtins where
  "example_builtins =
     \<lparr>ToNumber_ext = (\<lambda>v. if v = JStr '''' \<or> v = JArray [] then Finite 0 else NaN),
      JSON_parse = (\<lambda>v. if v = JStr ''[]'' then Some (JArray [])
                          else if v = JStr ''{}'' then Some (JObject []) else None),
      ToString_ext = (\<lambda>v. ''[object Object]'')\<rparr>"

text \<open>The rows a query settles to behind \<^verbatim>\<open>safeQuery\<close>.\<close>

definition settled :: "pool \<Rightarrow> string \<Rightarrow> props list" where
  "settled pool query = (case pool query of Inl err \<Rightarrow> [] | Inr rows \<Rightarrow> rows)"

text \<open>The current column of a directive exists in its table.\<close>

definition current_present :: "'d schema \<Rightarrow> directive \<Rightarrow> bool" where
  "current_present conn d =
     (case conn (dir_table d) of None \<Rightarrow> False | Some cols \<Rightarrow> has_column cols (dir_new d))"














section \<open>The reconciler: one directive\<close>








section \<open>The reconciler: weight of a store\<close>












section \<open>The reconciler: progress of one directive\<close>







section \<open>The reconciler: a list of directives\<close>











section \<open>The reconciler: stored data\<close>










section \<open>The reconciler: one directive on literal names\<close>




section \<open>Directive lists whose renames form no cycle\<close>



section \<open>The store on concrete names, and the directive list of the seed script\<close>

lemma lower_char_eval:
  "lower_char c =
     (if c = CHR ''A'' then CHR ''a'' else if c = CHR ''B'' then CHR ''b'' else
      if c = CHR ''C'' then CHR ''c'' else if c = CHR ''D'' then CHR ''d'' else
      if c = CHR ''E'' then CHR ''e'' else if c = CHR ''F'' then CHR ''f'' else
      if c = CHR ''G'' then CHR ''g'' else if c = CHR ''H'' then CHR ''h'' else
      if c = CHR ''I'' then CHR ''i'' else if c = CHR ''J'' then CHR ''j'' else
      if c = CHR ''K'' then CHR ''k'' else if c = CHR ''L'' then CHR ''l'' else
      if c = CHR ''M'' then CHR ''m'' else if c = CHR ''N'' then CHR ''n'' else
      if c = CHR ''O'' then CHR ''o'' else if c = CHR ''P'' then CHR ''p'' else
      if c = CHR ''Q'' then CHR ''q'' else if c = CHR ''R'' then CHR ''r'' else
      if c = CHR ''S'' then CHR ''s'' else if c = CHR ''T'' then CHR ''t'' else
      if c = CHR ''U'' then CHR ''u'' else if c = CHR ''V'' then CHR ''v'' else
      if c = CHR ''W'' then CHR ''w'' else if c = CHR ''X'' then CHR ''x'' else
      if c = CHR ''Y'' then CHR ''y'' else if c = CHR ''Z'' then CHR ''z'' else
      c)"
  by (simp add: lower_char_def)


lemmas store_eval =
  ensureColumn_def show_columns_def has_column_def same_name_def fold_case_def lower_char_eval
  rename_column_def current_present_def

section \<open>Claims about the reconciler\<close>

text \<open>
  C1 says that for every directive and every column state the rename is issued exactly
  when the legacy column exists and the current one does not, and that the current column
  is added when neither exists. The existence test of \<^verbatim>\<open>ensureColumn\<close> is
  \<^verbatim>\<open>SHOW COLUMNS FROM t LIKE ?\<close> with the column name as the pattern, and the underscore
  of a name such as \<open>is_verified\<close> stands for any character, so the test answers for
  columns other than the one named.

  \<^item> On a users table whose only column is \<open>isXverified\<close>, the directive
    (users, isVerified, is_verified) finds the current column present: it issues no
    statement and leaves the table as it is, although the table has neither the legacy nor
    the current column.
  \<^item> On a notifications table whose only column is \<open>isXread\<close>, the directive
    (notifications, is_read, isRead) finds the legacy column present: it issues the rename
    of a column that does not exist; the store rejects it, the failure is caught, and the
    current column is not added.
\<close>

theorem ensureColumn_like_pattern:
  "ensureColumn R [''users'' \<mapsto> [(''isXverified'', Column ''TINYINT'' cells)]]
       ''users'' ''isVerified'' ''is_verified'' ''TINYINT DEFAULT 0''
     = Inr ([''users'' \<mapsto> [(''isXverified'', Column ''TINYINT'' cells)]], [])
   \<and> show_columns [''users'' \<mapsto> [(''isXverified'', Column ''TINYINT'' cells)]]
       ''users'' ''is_verified'' = Inr [''isXverified'']
   \<and> \<not> has_column [(''isXverified'', Column ''TINYINT'' cells)] ''isVerified''
   \<and> \<not> has_column [(''isXverified'', Column ''TINYINT'' cells)] ''is_verified''
   \<and> ensureColumn R [''notifications'' \<mapsto> [(''isXread'', Column ''TINYINT'' cells)]]
       ''notifications'' ''is_read'' ''isRead'' ''TINYINT DEFAULT 0''
     = Inr ([''notifications'' \<mapsto> [(''isXread'', Column ''TINYINT'' cells)]],
            [ChangeColumn ''notifications'' ''is_read'' ''isRead'' ''TINYINT DEFAULT 0''])
   \<and> \<not> has_column [(''isXread'', Column ''TINYINT'' cells)] ''is_read''
   \<and> \<not> has_column [(''isXread'', Column ''TINYINT'' cells)] ''isRead''"
  by (simp add: store_eval)




section \<open>Reading property lists\<close>

lemma lookup_Nil: "lookup [] k = JUndefined"
  by (simp add: lookup_def)

lemma lookup_Cons: "lookup ((k, v) # kv) k' = (if k = k' then v else lookup kv k')"
  by (simp add: lookup_def)

lemma lookup_update: "lookup (AList.update k v al) k' = (if k' = k then v else lookup al k')"
  by (simp add: lookup_def update_conv')

lemma lookup_set_if_defined_same:
  "lookup al k = JUndefined \<Longrightarrow> lookup (set_if_defined k v al) k = v"
  by (simp add: set_if_defined_def lookup_update)

lemma lookup_set_if_defined_other:
  "k' \<noteq> k \<Longrightarrow> lookup (set_if_defined k v al) k' = lookup al k'"
  by (simp add: set_if_defined_def lookup_update)

lemma get_truthy: "truthy row \<Longrightarrow> get row k = Some (own row k)"
  by (cases row) (simp_all add: own_def)

lemma coalesce_simps:
  "coalesce JUndefined x = x"
  "coalesce JNull x = x"
  "coalesce (JNum n) x = JNum n"
  "coalesce (JBool b) x = JBool b"
  "coalesce (coalesce x JNull) JNull = coalesce x JNull"
  "coalesce x JNull \<noteq> JUndefined"
  "coalesce x x = x"
  by (simp_all add: coalesce_def nullish_def)

lemma coalesce_chain2:
  "coalesce (coalesce (coalesce x JNull) JUndefined) JNull = coalesce x JNull"
  by (simp add: coalesce_def nullish_def)

lemma coalesce_chain3:
  "coalesce (coalesce (coalesce (coalesce x JNull) JUndefined) JUndefined) JNull = coalesce x JNull"
  by (simp add: coalesce_def nullish_def)

lemma first_present_coalesce:
  "first_present [a] d = coalesce a d"
  "first_present [a, b] d = coalesce (coalesce a b) d"
  "first_present [a, b, c] d = coalesce (coalesce (coalesce a b) c) d"
  by (simp_all add: coalesce_def)

section \<open>The mappers in closed form\<close>

lemma dbUserToApi_object:
  "dbUserToApi B (JObject row) = Some (JObject
     [(''id'', lookup row ''id''),
      (''name'', lookup row ''name''),
      (''email'', lookup row ''email''),
      (''password'', lookup row ''password''),
      (''role'', lookup row ''role''),
      (''avatarUrl'', coalesce (coalesce (lookup row ''avatar_url'') (lookup row ''avatarUrl'')) JNull),
      (''isVerified'', JNum (Number_js B (coalesce (coalesce (lookup row ''is_verified'')
          (lookup row ''isVerified'')) (JNum (Finite 0))))),
      (''phoneNumber'', coalesce (coalesce (lookup row ''phone_number'') (lookup row ''phoneNumber'')) JNull),
      (''mediaName'', coalesce (coalesce (lookup row ''media_name'') (lookup row ''mediaName'')) JNull),
      (''position'', coalesce (lookup row ''position'') JNull),
      (''ukwCertification'', coalesce (coalesce (lookup row ''ukw_certification'')
          (lookup row ''ukwCertification'')) JNull)])"
  by (simp add: dbUserToApi_def)

lemma dbPartnerToApi_object:
  "dbPartnerToApi (JObject row) = Some (JObject
     [(''id'', lookup row ''id''),
      (''name'', lookup row ''name''),
      (''logoUrl'', coalesce (coalesce (lookup row ''logo_url'') (lookup row ''logoUrl'')) JNull),
      (''link'', coalesce (lookup row ''link'') JNull)])"
  by (simp add: dbPartnerToApi_def)

lemma dbStructureToApi_object:
  "dbStructureToApi (JObject row) = Some (JObject
     [(''id'', lookup row ''id''),
      (''name'', lookup row ''name''),
      (''position'', lookup row ''position''),
      (''photoUrl'', coalesce (coalesce (lookup row ''photo_url'') (lookup row ''photoUrl'')) JNull)])"
  by (simp add: dbStructureToApi_def)

lemma dbArticleToApi_object:
  "dbArticleToApi (JObject row) = Some (JObject
     [(''id'', lookup row ''id''),
      (''title'', lookup row ''title''),
      (''content'', lookup row ''content''),
      (''snippet'', lookup row ''snippet''),
      (''status'', lookup row ''status''),
      (''authorId'', lookup row ''authorId''),
      (''editorFeedback'',
         coalesce (coalesce (lookup row ''editor_feedback'') (lookup row ''editorFeedback'')) JNull),
      (''coverImageUrl'',
         coalesce (coalesce (coalesce (lookup row ''cover_image_url'') (lookup row ''coverImageUrl''))
           (lookup row ''imageUrl'')) JNull),
      (''imageUrl'',
         coalesce (coalesce (coalesce (lookup row ''cover_image_url'') (lookup row ''coverImageUrl''))
           (lookup row ''imageUrl'')) JNull)])"
  by (simp add: dbArticleToApi_def Let_def)

lemma formatContactFromRow_object:
  "formatContactFromRow B (JObject row) = Some (JObject
     [(''organizationName'', js_or (lookup row ''organizationName'') (JStr '''')),
      (''address'', js_or (lookup row ''address'') (JStr '''')),
      (''email'', js_or (lookup row ''email'') (JStr '''')),
      (''phone'', js_or (lookup row ''phone'') (JStr '''')),
      (''siteLogo'', js_or (lookup row ''logo_url'') (JStr '''')),
      (''faviconUrl'', js_or (lookup row ''favicon_url'') (JStr '''')),
      (''socials'', safeJsonParse B (lookup row ''socials'') (JObject []))])"
  by (simp add: formatContactFromRow_def)

lemma formatContactFromRow_explicit:
  "formatContactFromRow B row = Some
     (if truthy row then JObject
        [(''organizationName'',
            if truthy (own row ''organizationName'') then own row ''organizationName'' else JStr ''''),
         (''address'', if truthy (own row ''address'') then own row ''address'' else JStr ''''),
         (''email'', if truthy (own row ''email'') then own row ''email'' else JStr ''''),
         (''phone'', if truthy (own row ''phone'') then own row ''phone'' else JStr ''''),
         (''siteLogo'', if truthy (own row ''logo_url'') then own row ''logo_url'' else JStr ''''),
         (''faviconUrl'',
            if truthy (own row ''favicon_url'') then own row ''favicon_url'' else JStr ''''),
         (''socials'',
            case own row ''socials'' of
              JUndefined \<Rightarrow> JObject []
            | JNull \<Rightarrow> JObject []
            | JArray xs \<Rightarrow> JArray xs
            | JObject kv \<Rightarrow> JObject kv
            | _ \<Rightarrow> (case JSON_parse B (own row ''socials'') of
                       Some parsed \<Rightarrow> parsed
                     | None \<Rightarrow> JObject []))]
      else JNull)"
proof (cases "truthy row")
  case False
  then show ?thesis by (simp add: formatContactFromRow_def)
next
  case True
  have s: "safeJsonParse B v (JObject []) =
      (case v of
         JUndefined \<Rightarrow> JObject []
       | JNull \<Rightarrow> JObject []
       | JArray xs \<Rightarrow> JArray xs
       | JObject kv \<Rightarrow> JObject kv
       | _ \<Rightarrow> (case JSON_parse B v of Some parsed \<Rightarrow> parsed | None \<Rightarrow> JObject []))" for v
    by (cases v) (simp_all add: safeJsonParse_def nullish_def)
  from True show ?thesis
    by (simp add: formatContactFromRow_def get_truthy js_or_def s)
qed

lemma mappers_total:
  "dbUserToApi B row \<noteq> None"
  "dbPartnerToApi row \<noteq> None"
  "dbStructureToApi row \<noteq> None"
  "dbArticleToApi row \<noteq> None"
  "formatContactFromRow B row \<noteq> None"
  by (cases "truthy row";
      simp add: dbUserToApi_def dbPartnerToApi_def dbStructureToApi_def dbArticleToApi_def
        formatContactFromRow_def get_truthy Let_def)+

lemma apiUserToDb_of_api:
  "apiUserToDb B (JObject
     [(''id'', i), (''name'', n), (''email'', e), (''password'', p), (''role'', r),
      (''avatarUrl'', coalesce a JNull), (''isVerified'', JNum v),
      (''phoneNumber'', coalesce ph JNull), (''mediaName'', coalesce m JNull),
      (''position'', coalesce po JNull), (''ukwCertification'', coalesce u JNull)]) =
   Some (JObject
     (set_if_defined ''ukw_certification'' (coalesce u JNull)
     (set_if_defined ''position'' (coalesce po JNull)
     (set_if_defined ''media_name'' (coalesce m JNull)
     (set_if_defined ''phone_number'' (coalesce ph JNull)
     (AList.update ''is_verified'' (JNum (Finite (if truthy (JNum v) then 1 else 0)))
     (set_if_defined ''avatar_url'' (coalesce a JNull)
     (set_if_defined ''role'' r
     (set_if_defined ''password'' p
     (set_if_defined ''email'' e
     (set_if_defined ''name'' n [])))))))))))"
  by (simp add: apiUserToDb_def js_or_def lookup_Cons lookup_Nil coalesce_simps)

lemma apiArticleToDb_of_api:
  "apiArticleToDb (JObject
     [(''id'', i), (''title'', t), (''content'', c), (''snippet'', s), (''status'', st),
      (''authorId'', a), (''editorFeedback'', ef), (''coverImageUrl'', cv), (''imageUrl'', cv)]) =
   Some (JObject
     (set_if_defined ''id'' i
     (set_if_defined ''cover_image_url'' cv
     (set_if_defined ''editor_feedback'' ef
     (set_if_defined ''authorId'' a
     (set_if_defined ''status'' st
     (set_if_defined ''snippet'' s
     (set_if_defined ''content'' c
     (set_if_defined ''title'' t [])))))))))"
  by (simp add: apiArticleToDb_def js_or_def lookup_Cons lookup_Nil coalesce_simps)

lemma apiPartnerToDb_object:
  "apiPartnerToDb (JObject item) = Some (JObject
     (set_if_defined ''id'' (lookup item ''id'')
        [(''name'', lookup item ''name''), (''logo_url'', lookup item ''logoUrl''),
         (''link'', lookup item ''link'')]))"
  by (simp add: apiPartnerToDb_def js_or_def)

lemma apiStructureToDb_object:
  "apiStructureToDb (JObject item) = Some (JObject
     (set_if_defined ''id'' (lookup item ''id'')
        [(''name'', lookup item ''name''), (''position'', lookup item ''position''),
         (''photo_url'', lookup item ''photoUrl'')]))"
  by (simp add: apiStructureToDb_def js_or_def)

section \<open>Round trips through the two mappers\<close>

lemma user_round_trip:
  "(dbUserToApi B (JObject row) \<bind> apiUserToDb B \<bind> dbUserToApi B) =
   Some (JObject
     [(''id'', JUndefined),
      (''name'', lookup row ''name''),
      (''email'', lookup row ''email''),
      (''password'', lookup row ''password''),
      (''role'', lookup row ''role''),
      (''avatarUrl'', coalesce (coalesce (lookup row ''avatar_url'') (lookup row ''avatarUrl'')) JNull),
      (''isVerified'', JNum (Finite (if truthy (JNum (Number_js B (coalesce (coalesce (lookup row ''is_verified'')
          (lookup row ''isVerified'')) (JNum (Finite 0))))) then 1 else 0))),
      (''phoneNumber'', coalesce (coalesce (lookup row ''phone_number'') (lookup row ''phoneNumber'')) JNull),
      (''mediaName'', coalesce (coalesce (lookup row ''media_name'') (lookup row ''mediaName'')) JNull),
      (''position'', coalesce (lookup row ''position'') JNull),
      (''ukwCertification'', coalesce (coalesce (lookup row ''ukw_certification'')
          (lookup row ''ukwCertification'')) JNull)])"
  apply (simp only: dbUserToApi_object bind.bind_lunit apiUserToDb_of_api)
  apply (simp add: lookup_set_if_defined_same lookup_set_if_defined_other lookup_update lookup_Nil
      coalesce_simps coalesce_chain2)
  done

lemma article_round_trip:
  "(dbArticleToApi (JObject row) \<bind> apiArticleToDb \<bind> dbArticleToApi) = dbArticleToApi (JObject row)"
  apply (simp only: dbArticleToApi_object bind.bind_lunit apiArticleToDb_of_api)
  apply (simp add: lookup_set_if_defined_same lookup_set_if_defined_other lookup_Nil
      coalesce_chain3 coalesce_chain2)
  done

lemma partner_round_trip:
  "(dbPartnerToApi (JObject row) \<bind> apiPartnerToDb \<bind> dbPartnerToApi) = dbPartnerToApi (JObject row)"
  apply (simp only: dbPartnerToApi_object bind.bind_lunit apiPartnerToDb_object)
  apply (simp add: lookup_set_if_defined_same lookup_set_if_defined_other lookup_Cons lookup_Nil
      coalesce_chain2 coalesce_simps)
  done

lemma structure_round_trip:
  "(dbStructureToApi (JObject row) \<bind> apiStructureToDb \<bind> dbStructureToApi) = dbStructureToApi (JObject row)"
  apply (simp only: dbStructureToApi_object bind.bind_lunit apiStructureToDb_object)
  apply (simp add: lookup_set_if_defined_same lookup_set_if_defined_other lookup_Cons lookup_Nil
      coalesce_chain2 coalesce_simps)
  done

section \<open>Claims about the entity mappers\<close>

text \<open>
  C3, as stated, asks that mapping a row to the API shape, back to columns and to the API
  shape again gives the first API shape, for the user mappers in particular. A user row
  with an id is a counterexample: \<open>apiUserToDb\<close> does not carry the id, so the second
  API shape has no id.
\<close>

theorem user_round_trip_loses_id:
  "\<forall>B. (dbUserToApi B (JObject [(''id'', JNum (Finite 1))]) \<bind> apiUserToDb B \<bind> dbUserToApi B)
     \<noteq> dbUserToApi B (JObject [(''id'', JNum (Finite 1))])"
proof
  fix B
  show "(dbUserToApi B (JObject [(''id'', JNum (Finite 1))]) \<bind> apiUserToDb B \<bind> dbUserToApi B)
     \<noteq> dbUserToApi B (JObject [(''id'', JNum (Finite 1))])"
    by (simp only: user_round_trip) (simp add: dbUserToApi_object lookup_Cons lookup_Nil)
qed

text \<open>
  C3, amended. For every row object the round trip through the article, the partner and
  the structure mappers gives the first API shape again. Through the user mappers it
  gives the first API shape with the id removed (\<open>undefined\<close>) and the verified flag
  renormalised to 1 when it was truthy and 0 otherwise; so it gives the first API shape
  again exactly on rows without an id whose verified flag already maps to 0 or 1.
\<close>

theorem round_trip_mappers:
  "(dbArticleToApi (JObject row) \<bind> apiArticleToDb \<bind> dbArticleToApi) = dbArticleToApi (JObject row)
   \<and> (dbPartnerToApi (JObject row) \<bind> apiPartnerToDb \<bind> dbPartnerToApi) = dbPartnerToApi (JObject row)
   \<and> (dbStructureToApi (JObject row) \<bind> apiStructureToDb \<bind> dbStructureToApi)
        = dbStructureToApi (JObject row)
   \<and> (\<exists>api. dbUserToApi B (JObject row) = Some (JObject api)
        \<and> (dbUserToApi B (JObject row) \<bind> apiUserToDb B \<bind> dbUserToApi B) =
            Some (JObject
              (AList.update ''isVerified''
                 (JNum (Finite (if truthy (lookup api ''isVerified'') then 1 else 0)))
                 (AList.update ''id'' JUndefined api)))
        \<and> (lookup row ''id'' = JUndefined
             \<and> lookup api ''isVerified'' \<in> {JNum (Finite 0), JNum (Finite 1)}
            \<longrightarrow> (dbUserToApi B (JObject row) \<bind> apiUserToDb B \<bind> dbUserToApi B)
                  = dbUserToApi B (JObject row)))"
proof (intro conjI)
  show "(dbArticleToApi (JObject row) \<bind> apiArticleToDb \<bind> dbArticleToApi) = dbArticleToApi (JObject row)"
    by (rule article_round_trip)
  show "(dbPartnerToApi (JObject row) \<bind> apiPartnerToDb \<bind> dbPartnerToApi) = dbPartnerToApi (JObject row)"
    by (rule partner_round_trip)
  show "(dbStructureToApi (JObject row) \<bind> apiStructureToDb \<bind> dbStructureToApi)
        = dbStructureToApi (JObject row)"
    by (rule structure_round_trip)
  let ?flag = "Number_js B (coalesce (coalesce (lookup row ''is_verified'')
          (lookup row ''isVerified'')) (JNum (Finite 0)))"
  let ?api = "[(''id'', lookup row ''id''),
      (''name'', lookup row ''name''),
      (''email'', lookup row ''email''),
      (''password'', lookup row ''password''),
      (''role'', lookup row ''role''),
      (''avatarUrl'', coalesce (coalesce (lookup row ''avatar_url'') (lookup row ''avatarUrl'')) JNull),
      (''isVerified'', JNum ?flag),
      (''phoneNumber'', coalesce (coalesce (lookup row ''phone_number'') (lookup row ''phoneNumber'')) JNull),
      (''mediaName'', coalesce (coalesce (lookup row ''media_name'') (lookup row ''mediaName'')) JNull),
      (''position'', coalesce (lookup row ''position'') JNull),
      (''ukwCertification'', coalesce (coalesce (lookup row ''ukw_certification'')
          (lookup row ''ukwCertification'')) JNull)]"
  have api: "dbUserToApi B (JObject row) = Some (JObject ?api)"
    by (rule dbUserToApi_object)
  have flag: "lookup ?api ''isVerified'' = JNum ?flag"
    by (simp add: lookup_Cons)
  have trip: "(dbUserToApi B (JObject row) \<bind> apiUserToDb B \<bind> dbUserToApi B) =
      Some (JObject
        (AList.update ''isVerified'' (JNum (Finite (if truthy (lookup ?api ''isVerified'') then 1 else 0)))
           (AList.update ''id'' JUndefined ?api)))"
    by (simp only: user_round_trip flag) simp
  have same: "lookup row ''id'' = JUndefined
       \<and> lookup ?api ''isVerified'' \<in> {JNum (Finite 0), JNum (Finite 1)}
      \<longrightarrow> (dbUserToApi B (JObject row) \<bind> apiUserToDb B \<bind> dbUserToApi B)
            = dbUserToApi B (JObject row)"
  proof
    assume h: "lookup row ''id'' = JUndefined
       \<and> lookup ?api ''isVerified'' \<in> {JNum (Finite 0), JNum (Finite 1)}"
    then have f: "?flag = Finite 0 \<or> ?flag = Finite 1"
      by (simp add: flag)
    from h have i: "lookup row ''id'' = JUndefined" by simp
    from f i show "(dbUserToApi B (JObject row) \<bind> apiUserToDb B \<bind> dbUserToApi B)
            = dbUserToApi B (JObject row)"
      by (simp only: user_round_trip) (auto simp: dbUserToApi_object)
  qed
  from api trip same
  show "\<exists>api. dbUserToApi B (JObject row) = Some (JObject api)
        \<and> (dbUserToApi B (JObject row) \<bind> apiUserToDb B \<bind> dbUserToApi B) =
            Some (JObject
              (AList.update ''isVerified''
                 (JNum (Finite (if truthy (lookup api ''isVerified'') then 1 else 0)))
                 (AList.update ''id'' JUndefined api)))
        \<and> (lookup row ''id'' = JUndefined
             \<and> lookup api ''isVerified'' \<in> {JNum (Finite 0), JNum (Finite 1)}
            \<longrightarrow> (dbUserToApi B (JObject row) \<bind> apiUserToDb B \<bind> dbUserToApi B)
                  = dbUserToApi B (JObject row))"
    by (intro exI [of _ ?api] conjI)
qed

text \<open>
  A user row from a legacy schema, without an id, whose flag is stored as a boolean under
  the legacy name: the round trip gives the first API shape again.
\<close>

theorem round_trip_mappers_witness:
  "\<forall>B. (dbUserToApi B (JObject [(''name'', JStr ''Ani''), (''isVerified'', JBool True)])
          \<bind> apiUserToDb B \<bind> dbUserToApi B)
       = dbUserToApi B (JObject [(''name'', JStr ''Ani''), (''isVerified'', JBool True)])"
proof
  fix B
  let ?row = "[(''name'', JStr ''Ani''), (''isVerified'', JBool True)]"
  from round_trip_mappers [of ?row B]
  obtain api where a: "dbUserToApi B (JObject ?row) = Some (JObject api)"
    and s: "lookup ?row ''id'' = JUndefined
             \<and> lookup api ''isVerified'' \<in> {JNum (Finite 0), JNum (Finite 1)}
            \<longrightarrow> (dbUserToApi B (JObject ?row) \<bind> apiUserToDb B \<bind> dbUserToApi B)
                  = dbUserToApi B (JObject ?row)"
    by blast
  from a have "lookup api ''isVerified'' = JNum (Finite 1)"
    by (auto simp: dbUserToApi_object lookup_Cons lookup_Nil coalesce_simps)
  moreover have "lookup ?row ''id'' = JUndefined"
    by (simp add: lookup_Cons lookup_Nil)
  ultimately show "(dbUserToApi B (JObject ?row) \<bind> apiUserToDb B \<bind> dbUserToApi B)
       = dbUserToApi B (JObject ?row)"
    using s by simp
qed

text \<open>
  C4. The claim asks that a field absent from the payload produces no key in the result,
  for the structure and partner mappers too. On a partner payload that carries only
  \<open>link\<close>, \<open>apiPartnerToDb\<close> returns the keys \<open>name\<close> and \<open>logo_url\<close> with the
  value \<open>undefined\<close>, and \<open>apiStructureToDb\<close> does the same for \<open>position\<close> and
  \<open>photo_url\<close> on a payload that carries only \<open>name\<close>; the user and article mappers
  on the same kind of payload return only the key that was sent.
\<close>

theorem partner_structure_emit_absent_keys:
  "apiPartnerToDb (JObject [(''link'', JStr ''x'')]) =
     Some (JObject [(''name'', JUndefined), (''logo_url'', JUndefined), (''link'', JStr ''x'')])
   \<and> apiStructureToDb (JObject [(''name'', JStr ''Ani'')]) =
     Some (JObject [(''name'', JStr ''Ani''), (''position'', JUndefined), (''photo_url'', JUndefined)])
   \<and> apiUserToDb B (JObject [(''name'', JStr ''Ani'')]) = Some (JObject [(''name'', JStr ''Ani'')])
   \<and> apiArticleToDb (JObject [(''title'', JStr ''x'')]) = Some (JObject [(''title'', JStr ''x'')])"
  by (simp add: apiPartnerToDb_object apiStructureToDb_object apiUserToDb_def apiArticleToDb_def
      js_or_def lookup_Cons lookup_Nil set_if_defined_def coalesce_simps)

text \<open>
  C5, as stated, asks that every semantic attribute resolves to the first non-missing
  value among the current column and then its legacy aliases. The contact mapper does
  not: it takes the value of the current column when that value is truthy and the empty
  string otherwise, and reads no legacy alias. A contact row with the phone \<open>0\<close> and the
  logo under the legacy column \<open>site_logo\<close> is mapped to an empty phone and an empty
  \<open>siteLogo\<close>, where the first non-missing values are \<open>0\<close> and the legacy logo.
\<close>

theorem contact_mapper_ignores_falsy_and_legacy:
  "\<forall>B. formatContactFromRow B
          (JObject [(''phone'', JNum (Finite 0)), (''site_logo'', JStr ''old.png'')])
        = Some (JObject
            [(''organizationName'', JStr ''''),
             (''address'', JStr ''''),
             (''email'', JStr ''''),
             (''phone'', JStr ''''),
             (''siteLogo'', JStr ''''),
             (''faviconUrl'', JStr ''''),
             (''socials'', JObject [])])
      \<and> first_present
            [own (JObject [(''phone'', JNum (Finite 0)), (''site_logo'', JStr ''old.png'')]) ''phone'']
            (JStr '''') = JNum (Finite 0)
      \<and> first_present
            [own (JObject [(''phone'', JNum (Finite 0)), (''site_logo'', JStr ''old.png'')]) ''logo_url'',
             own (JObject [(''phone'', JNum (Finite 0)), (''site_logo'', JStr ''old.png'')]) ''site_logo'']
            (JStr '''') = JStr ''old.png''"
  by (simp add: formatContactFromRow_explicit own_def lookup_Cons lookup_Nil nullish_def)

text \<open>
  C5, amended. For every value passed as a row, also one with fields missing, none of the
  five row mappers raises, and each returns \<open>null\<close> for a falsy row and otherwise the
  object spelled out below. In the user, partner, structure and article mappers an
  attribute with a fallback chain resolves to the first value that is not missing among
  the current column and then its aliases in the mapper's fixed order, else to \<open>null\<close>
  (the article cover resolves \<open>cover_image_url\<close>, then \<open>coverImageUrl\<close>, then
  \<open>imageUrl\<close>; the verified flag is the number made of \<open>is_verified\<close>, then
  \<open>isVerified\<close>, else 0), and every other attribute is the column of its name as it is.
  In the contact mapper each text attribute is the value of its one column when that
  value is truthy, else the empty string, with no legacy alias read; \<open>socials\<close> is the
  empty object when the column is missing or null, the stored value when that is an
  object or an array, and otherwise what \<^verbatim>\<open>JSON.parse\<close> makes of it, or the empty object
  when \<^verbatim>\<open>JSON.parse\<close> throws.
\<close>

theorem mapRowToApi_total_and_resolution:
  "dbUserToApi B row = Some
     (if truthy row then JObject
        [(''id'', own row ''id''),
         (''name'', own row ''name''),
         (''email'', own row ''email''),
         (''password'', own row ''password''),
         (''role'', own row ''role''),
         (''avatarUrl'', first_present [own row ''avatar_url'', own row ''avatarUrl''] JNull),
         (''isVerified'',
            JNum (Number_js B
              (first_present [own row ''is_verified'', own row ''isVerified''] (JNum (Finite 0))))),
         (''phoneNumber'', first_present [own row ''phone_number'', own row ''phoneNumber''] JNull),
         (''mediaName'', first_present [own row ''media_name'', own row ''mediaName''] JNull),
         (''position'', first_present [own row ''position''] JNull),
         (''ukwCertification'',
            first_present [own row ''ukw_certification'', own row ''ukwCertification''] JNull)]
      else JNull)
   \<and> dbPartnerToApi row = Some
     (if truthy row then JObject
        [(''id'', own row ''id''),
         (''name'', own row ''name''),
         (''logoUrl'', first_present [own row ''logo_url'', own row ''logoUrl''] JNull),
         (''link'', first_present [own row ''link''] JNull)]
      else JNull)
   \<and> dbStructureToApi row = Some
     (if truthy row then JObject
        [(''id'', own row ''id''),
         (''name'', own row ''name''),
         (''position'', own row ''position''),
         (''photoUrl'', first_present [own row ''photo_url'', own row ''photoUrl''] JNull)]
      else JNull)
   \<and> dbArticleToApi row = Some
     (if truthy row then JObject
        [(''id'', own row ''id''),
         (''title'', own row ''title''),
         (''content'', own row ''content''),
         (''snippet'', own row ''snippet''),
         (''status'', own row ''status''),
         (''authorId'', own row ''authorId''),
         (''editorFeedback'',
            first_present [own row ''editor_feedback'', own row ''editorFeedback''] JNull),
         (''coverImageUrl'',
            first_present
              [own row ''cover_image_url'', own row ''coverImageUrl'', own row ''imageUrl''] JNull),
         (''imageUrl'',
            first_present
              [own row ''cover_image_url'', own row ''coverImageUrl'', own row ''imageUrl''] JNull)]
      else JNull)
   \<and> formatContactFromRow B row = Some
     (if truthy row then JObject
        [(''organizationName'',
            if truthy (own row ''organizationName'') then own row ''organizationName'' else JStr ''''),
         (''address'', if truthy (own row ''address'') then own row ''address'' else JStr ''''),
         (''email'', if truthy (own row ''email'') then own row ''email'' else JStr ''''),
         (''phone'', if truthy (own row ''phone'') then own row ''phone'' else JStr ''''),
         (''siteLogo'', if truthy (own row ''logo_url'') then own row ''logo_url'' else JStr ''''),
         (''faviconUrl'',
            if truthy (own row ''favicon_url'') then own row ''favicon_url'' else JStr ''''),
         (''socials'',
            case own row ''socials'' of
              JUndefined \<Rightarrow> JObject []
            | JNull \<Rightarrow> JObject []
            | JArray xs \<Rightarrow> JArray xs
            | JObject kv \<Rightarrow> JObject kv
            | _ \<Rightarrow> (case JSON_parse B (own row ''socials'') of
                       Some parsed \<Rightarrow> parsed
                     | None \<Rightarrow> JObject []))]
      else JNull)"
proof (intro conjI)
  show "dbUserToApi B row = Some
     (if truthy row then JObject
        [(''id'', own row ''id''),
         (''name'', own row ''name''),
         (''email'', own row ''email''),
         (''password'', own row ''password''),
         (''role'', own row ''role''),
         (''avatarUrl'', first_present [own row ''avatar_url'', own row ''avatarUrl''] JNull),
         (''isVerified'',
            JNum (Number_js B
              (first_present [own row ''is_verified'', own row ''isVerified''] (JNum (Finite 0))))),
         (''phoneNumber'', first_present [own row ''phone_number'', own row ''phoneNumber''] JNull),
         (''mediaName'', first_present [own row ''media_name'', own row ''mediaName''] JNull),
         (''position'', first_present [own row ''position''] JNull),
         (''ukwCertification'',
            first_present [own row ''ukw_certification'', own row ''ukwCertification''] JNull)]
      else JNull)"
    by (cases "truthy row")
       (simp_all add: dbUserToApi_def get_truthy first_present_coalesce del: first_present.simps)
  show "dbPartnerToApi row = Some
     (if truthy row then JObject
        [(''id'', own row ''id''),
         (''name'', own row ''name''),
         (''logoUrl'', first_present [own row ''logo_url'', own row ''logoUrl''] JNull),
         (''link'', first_present [own row ''link''] JNull)]
      else JNull)"
    by (cases "truthy row")
       (simp_all add: dbPartnerToApi_def get_truthy first_present_coalesce del: first_present.simps)
  show "dbStructureToApi row = Some
     (if truthy row then JObject
        [(''id'', own row ''id''),
         (''name'', own row ''name''),
         (''position'', own row ''position''),
         (''photoUrl'', first_present [own row ''photo_url'', own row ''photoUrl''] JNull)]
      else JNull)"
    by (cases "truthy row")
       (simp_all add: dbStructureToApi_def get_truthy first_present_coalesce del: first_present.simps)
  show "dbArticleToApi row = Some
     (if truthy row then JObject
        [(''id'', own row ''id''),
         (''title'', own row ''title''),
         (''content'', own row ''content''),
         (''snippet'', own row ''snippet''),
         (''status'', own row ''status''),
         (''authorId'', own row ''authorId''),
         (''editorFeedback'',
            first_present [own row ''editor_feedback'', own row ''editorFeedback''] JNull),
         (''coverImageUrl'',
            first_present
              [own row ''cover_image_url'', own row ''coverImageUrl'', own row ''imageUrl''] JNull),
         (''imageUrl'',
            first_present
              [own row ''cover_image_url'', own row ''coverImageUrl'', own row ''imageUrl''] JNull)]
      else JNull)"
    by (cases "truthy row")
       (simp_all add: dbArticleToApi_def get_truthy first_present_coalesce Let_def
          del: first_present.simps)
  show "formatContactFromRow B row = Some
     (if truthy row then JObject
        [(''organizationName'',
            if truthy (own row ''organizationName'') then own row ''organizationName'' else JStr ''''),
         (''address'', if truthy (own row ''address'') then own row ''address'' else JStr ''''),
         (''email'', if truthy (own row ''email'') then own row ''email'' else JStr ''''),
         (''phone'', if truthy (own row ''phone'') then own row ''phone'' else JStr ''''),
         (''siteLogo'', if truthy (own row ''logo_url'') then own row ''logo_url'' else JStr ''''),
         (''faviconUrl'',
            if truthy (own row ''favicon_url'') then own row ''favicon_url'' else JStr ''''),
         (''socials'',
            case own row ''socials'' of
              JUndefined \<Rightarrow> JObject []
            | JNull \<Rightarrow> JObject []
            | JArray xs \<Rightarrow> JArray xs
            | JObject kv \<Rightarrow> JObject kv
            | _ \<Rightarrow> (case JSON_parse B (own row ''socials'') of
                       Some parsed \<Rightarrow> parsed
                     | None \<Rightarrow> JObject []))]
      else JNull)"
    by (rule formatContactFromRow_explicit)
qed

text \<open>
  An article row whose cover is stored only under the oldest alias \<open>imageUrl\<close>, with
  \<open>cover_image_url\<close> null, and a contact row with an empty address and its socials
  stored as the text \<^verbatim>\<open>[]\<close>.
\<close>

theorem mapRowToApi_total_and_resolution_witness:
  "dbArticleToApi
     (JObject [(''id'', JNum (Finite 7)), (''cover_image_url'', JNull), (''imageUrl'', JStr ''a.png'')])
     = Some (JObject
        [(''id'', JNum (Finite 7)),
         (''title'', JUndefined),
         (''content'', JUndefined),
         (''snippet'', JUndefined),
         (''status'', JUndefined),
         (''authorId'', JUndefined),
         (''editorFeedback'', JNull),
         (''coverImageUrl'', JStr ''a.png''),
         (''imageUrl'', JStr ''a.png'')])
   \<and> formatContactFromRow example_builtins
     (JObject [(''organizationName'', JStr ''PWMOI''), (''address'', JStr ''''),
               (''logo_url'', JStr ''logo.png''), (''socials'', JStr ''[]'')])
     = Some (JObject
        [(''organizationName'', JStr ''PWMOI''),
         (''address'', JStr ''''),
         (''email'', JStr ''''),
         (''phone'', JStr ''''),
         (''siteLogo'', JStr ''logo.png''),
         (''faviconUrl'', JStr ''''),
         (''socials'', JArray [])])"
proof (rule conjI)
  from mapRowToApi_total_and_resolution
    [where row = "JObject [(''id'', JNum (Finite 7)), (''cover_image_url'', JNull),
       (''imageUrl'', JStr ''a.png'')]"]
  show "dbArticleToApi
     (JObject [(''id'', JNum (Finite 7)), (''cover_image_url'', JNull), (''imageUrl'', JStr ''a.png'')])
     = Some (JObject
        [(''id'', JNum (Finite 7)),
         (''title'', JUndefined),
         (''content'', JUndefined),
         (''snippet'', JUndefined),
         (''status'', JUndefined),
         (''authorId'', JUndefined),
         (''editorFeedback'', JNull),
         (''coverImageUrl'', JStr ''a.png''),
         (''imageUrl'', JStr ''a.png'')])"
    by (simp add: own_def lookup_Cons lookup_Nil nullish_def)
next
  from mapRowToApi_total_and_resolution
    [where B = example_builtins
       and row = "JObject [(''organizationName'', JStr ''PWMOI''), (''address'', JStr ''''),
               (''logo_url'', JStr ''logo.png''), (''socials'', JStr ''[]'')]"]
  show "formatContactFromRow example_builtins
     (JObject [(''organizationName'', JStr ''PWMOI''), (''address'', JStr ''''),
               (''logo_url'', JStr ''logo.png''), (''socials'', JStr ''[]'')])
     = Some (JObject
        [(''organizationName'', JStr ''PWMOI''),
         (''address'', JStr ''''),
         (''email'', JStr ''''),
         (''phone'', JStr ''''),
         (''siteLogo'', JStr ''logo.png''),
         (''faviconUrl'', JStr ''''),
         (''socials'', JArray [])])"
    by (simp add: own_def lookup_Cons lookup_Nil example_builtins_def)
qed

text \<open>
  C6, as stated, asks that the verified flag comes out as 0 or 1 whatever was stored. A
  row whose \<open>is_verified\<close> column holds 2 is mapped to \<open>isVerified = 2\<close>.
\<close>

theorem isVerified_not_normalised:
  "\<forall>B. \<exists>api. dbUserToApi B (JObject [(''is_verified'', JNum (Finite 2))]) = Some (JObject api)
     \<and> lookup api ''isVerified'' = JNum (Finite 2)
     \<and> lookup api ''isVerified'' \<notin> {JNum (Finite 0), JNum (Finite 1)}"
  by (simp add: dbUserToApi_object lookup_Cons lookup_Nil coalesce_simps)

text \<open>
  C6, amended. The flag of the API shape is the number that \<^verbatim>\<open>Number\<close> makes of the
  first value that is not missing among \<open>is_verified\<close> and \<open>isVerified\<close>, else of 0. It
  is exactly 0 or 1 when that value is absent, \<open>null\<close>, a boolean, or the number 0 or 1.
\<close>

theorem isVerified_coercion:
  "\<exists>api. dbUserToApi B (JObject row) = Some (JObject api)
     \<and> lookup api ''isVerified'' =
         JNum (Number_js B (first_present [lookup row ''is_verified'', lookup row ''isVerified'']
           (JNum (Finite 0))))
     \<and> (first_present [lookup row ''is_verified'', lookup row ''isVerified''] (JNum (Finite 0))
           \<in> {JNum (Finite 0), JNum (Finite 1), JBool False, JBool True}
         \<longrightarrow> lookup api ''isVerified'' \<in> {JNum (Finite 0), JNum (Finite 1)})"
  by (auto simp: dbUserToApi_object lookup_Cons first_present_coalesce simp del: first_present.simps)

text \<open>
  A row that keeps the flag as the boolean \<open>true\<close> under the legacy name, and a row
  with no flag at all.
\<close>

theorem isVerified_coercion_witness:
  "\<forall>B. (\<exists>api. dbUserToApi B (JObject [(''isVerified'', JBool True)]) = Some (JObject api)
          \<and> lookup api ''isVerified'' = JNum (Finite 1))
     \<and> (\<exists>api. dbUserToApi B (JObject []) = Some (JObject api)
          \<and> lookup api ''isVerified'' = JNum (Finite 0))"
proof
  fix B
  from isVerified_coercion [of B "[(''isVerified'', JBool True)]"]
  have one: "\<exists>api. dbUserToApi B (JObject [(''isVerified'', JBool True)]) = Some (JObject api)
          \<and> lookup api ''isVerified'' = JNum (Finite 1)"
    by (auto simp: lookup_Cons lookup_Nil coalesce_simps first_present_coalesce
        simp del: first_present.simps)
  from isVerified_coercion [of B "[]"]
  have zero: "\<exists>api. dbUserToApi B (JObject []) = Some (JObject api)
          \<and> lookup api ''isVerified'' = JNum (Finite 0)"
    by (auto simp: lookup_Nil coalesce_simps first_present_coalesce simp del: first_present.simps)
  from one zero
  show "(\<exists>api. dbUserToApi B (JObject [(''isVerified'', JBool True)]) = Some (JObject api)
          \<and> lookup api ''isVerified'' = JNum (Finite 1))
     \<and> (\<exists>api. dbUserToApi B (JObject []) = Some (JObject api)
          \<and> lookup api ''isVerified'' = JNum (Finite 0))"
    by (rule conjI)
qed

text \<open>
  C10. Each row mapper (users, partners, structure, articles, contact) applied to
  \<open>null\<close> or to a missing row (\<open>undefined\<close>) returns \<open>null\<close>: no object, and no
  exception.
\<close>

theorem null_row_maps_to_null:
  "dbUserToApi B JNull = Some JNull \<and> dbUserToApi B JUndefined = Some JNull
   \<and> dbPartnerToApi JNull = Some JNull \<and> dbPartnerToApi JUndefined = Some JNull
   \<and> dbStructureToApi JNull = Some JNull \<and> dbStructureToApi JUndefined = Some JNull
   \<and> dbArticleToApi JNull = Some JNull \<and> dbArticleToApi JUndefined = Some JNull
   \<and> formatContactFromRow B JNull = Some JNull \<and> formatContactFromRow B JUndefined = Some JNull"
  by (simp add: dbUserToApi_def dbPartnerToApi_def dbStructureToApi_def dbArticleToApi_def
      formatContactFromRow_def)

section \<open>The aggregate fetch in closed form\<close>

lemma safeQuery_settled: "safeQuery pool q = Inr (settled pool q)"
  by (simp add: safeQuery_def settled_def split: sum.splits)

lemma fetchAll_settled: "fetchAll pool qs = Inr (map (settled pool) qs)"
  by (induction qs) (simp_all add: fetchAll_def safeQuery_settled)

lemma those_map_total:
  "(\<And>x. f x \<noteq> None) \<Longrightarrow> those (map f xs) = Some (map (\<lambda>x. the (f x)) xs)"
proof (induction xs)
  case Nil
  then show ?case by simp
next
  case (Cons x xs)
  from Cons.prems [of x] obtain y where "f x = Some y" by (cases "f x") auto
  with Cons show ?case by simp
qed

lemma formattedContact_Some: "\<exists>c. formattedContact B rows = Some c"
  by (cases rows) (simp_all add: formattedContact_def formatContactFromRow_object)

lemma all_data_200:
  "\<exists>users articles structure partners contact.
     formattedContact B (settled pool ''SELECT * FROM contact_info LIMIT 1'') = Some contact \<and>
     all_data B pool = Json200 (JObject
       [(''users'', users),
        (''articles'', articles),
        (''profileContent'', formattedProfile B (settled pool ''SELECT * FROM site_profile LIMIT 1'')),
        (''contactInfo'', contact),
        (''programs'', rows_json (settled pool ''SELECT * FROM programs'')),
        (''structure'', structure),
        (''announcements'', rows_json (settled pool ''SELECT * FROM announcements'')),
        (''galleryImages'', rows_json (settled pool ''SELECT * FROM gallery'')),
        (''comments'', rows_json (settled pool ''SELECT * FROM comments'')),
        (''notifications'', rows_json (settled pool ''SELECT * FROM notifications'')),
        (''inspirationNotes'', rows_json (settled pool ''SELECT * FROM inspiration_notes'')),
        (''partners'', partners),
        (''legalContent'', legalContent B (settled pool ''SELECT * FROM legal_content''))])"
proof -
  obtain c where c: "formattedContact B (settled pool ''SELECT * FROM contact_info LIMIT 1'') = Some c"
    using formattedContact_Some by blast
  show ?thesis
    by (simp add: all_data_def fetchAll_settled all_data_queries_def all_data_body_def
        those_map_total mappers_total c)
qed

lemma all_data_contact:
  "formattedContact B (settled pool ''SELECT * FROM contact_info LIMIT 1'') = Some contact \<Longrightarrow>
   \<exists>body. all_data B pool = Json200 (JObject body) \<and> lookup body ''contactInfo'' = contact"
  using all_data_200 [of B pool] by (auto simp: lookup_Cons)

lemma all_data_profile:
  "\<exists>body. all_data B pool = Json200 (JObject body) \<and>
     lookup body ''profileContent'' = formattedProfile B (settled pool ''SELECT * FROM site_profile LIMIT 1'')"
  using all_data_200 [of B pool] by (auto simp: lookup_Cons)

lemma formattedProfile_mission:
  assumes "(\<exists>s. lookup row ''mission'' = JStr s \<and> JSON_parse B (JStr s) = None)
      \<or> lookup row ''mission'' = JUndefined \<or> lookup row ''mission'' = JNull"
  shows "\<exists>profile. formattedProfile B (row # rest) = JObject profile \<and>
     lookup profile ''mission'' = JArray []"
  using assms by (auto simp: formattedProfile_def Let_def lookup_Cons js_or_def)

section \<open>Claims about the aggregate fetch\<close>

text \<open>
  C7. For every ordered list of queries of which exactly one fails, \<open>fetchAll\<close> resolves,
  with as many row sets as there are queries and in their order: the empty row set at the
  position of the failing query, and at every other position the rows that query
  returned. No error reaches the caller.
\<close>

theorem fetchAll_isolates_failure:
  assumes "i < length queries"
    and "pool (queries ! i) = Inl err"
    and "\<forall>j < length queries. j \<noteq> i \<longrightarrow> pool (queries ! j) = Inr (rows j)"
  shows "\<exists>results. fetchAll pool queries = Inr results
     \<and> length results = length queries
     \<and> results ! i = []
     \<and> (\<forall>j < length queries. j \<noteq> i \<longrightarrow> results ! j = rows j)"
  using assms by (simp add: fetchAll_settled settled_def)

text \<open>
  Three queries of the handler, the second of which fails (its table is not there yet).
\<close>

theorem fetchAll_isolates_failure_witness:
  "fetchAll
     (\<lambda>q. if q = ''SELECT * FROM users'' then Inr [[(''id'', JNum (Finite 1))]]
          else if q = ''SELECT * FROM partners'' then Inr [[(''id'', JNum (Finite 7))]]
          else Inl (DbError ''ER_NO_SUCH_TABLE''))
     [''SELECT * FROM users'', ''SELECT * FROM gallery'', ''SELECT * FROM partners''] =
   Inr [[[(''id'', JNum (Finite 1))]], [], [[(''id'', JNum (Finite 7))]]]"
proof -
  let ?pool = "\<lambda>q. if q = ''SELECT * FROM users'' then Inr [[(''id'', JNum (Finite 1))]]
          else if q = ''SELECT * FROM partners'' then Inr [[(''id'', JNum (Finite 7))]]
          else Inl (DbError ''ER_NO_SUCH_TABLE'')"
  let ?qs = "[''SELECT * FROM users'', ''SELECT * FROM gallery'', ''SELECT * FROM partners'']"
  let ?rows = "\<lambda>j::nat. if j = 0 then [[(''id'', JNum (Finite 1))]] else [[(''id'', JNum (Finite 7))]]"
  have a: "(1::nat) < length ?qs" by simp
  have b: "?pool (?qs ! 1) = Inl (DbError ''ER_NO_SUCH_TABLE'')" by simp
  have c: "\<forall>j < length ?qs. j \<noteq> 1 \<longrightarrow> ?pool (?qs ! j) = Inr (?rows j)"
    by (simp add: less_Suc_eq nth_Cons')
  from fetchAll_isolates_failure [of 1 ?qs ?pool "DbError ''ER_NO_SUCH_TABLE''" ?rows, OF a b c]
  obtain results where r: "fetchAll ?pool ?qs = Inr results" and l: "length results = 3"
    and m: "results ! 1 = []"
    and o: "\<forall>j < length ?qs. j \<noteq> 1 \<longrightarrow> results ! j = ?rows j"
    by auto
  from o have "results ! 0 = [[(''id'', JNum (Finite 1))]]" and "results ! 2 = [[(''id'', JNum (Finite 7))]]"
    by simp_all
  with l m have "results = [[[(''id'', JNum (Finite 1))]], [], [[(''id'', JNum (Finite 7))]]]"
    by (cases results; simp; cases "tl results"; simp; cases "tl (tl results)"; simp)
  with r show ?thesis by simp
qed

text \<open>
  C8. When the contact-info query returns no row, the \<open>contactInfo\<close> field of the
  aggregate answer is \<open>null\<close>, not an object; when it returns a row, \<open>contactInfo\<close> is
  the projection of that row with all its seven fields: each of the six text fields is
  the value of its column when that value is truthy and the empty string otherwise, and
  \<open>socials\<close> is the empty object when the column is missing or null, the stored value
  when that is an object or an array, and otherwise what \<^verbatim>\<open>JSON.parse\<close> makes of it, or
  the empty object when \<^verbatim>\<open>JSON.parse\<close> throws.
\<close>

theorem contactInfo_null_or_projection:
  "(pool ''SELECT * FROM contact_info LIMIT 1'' = Inr [] \<longrightarrow>
      (\<exists>body. all_data B pool = Json200 (JObject body) \<and> lookup body ''contactInfo'' = JNull))
   \<and> (pool ''SELECT * FROM contact_info LIMIT 1'' = Inr (row # rest) \<longrightarrow>
      (\<exists>body. all_data B pool = Json200 (JObject body) \<and>
         lookup body ''contactInfo'' = JObject
           [(''organizationName'',
               if truthy (lookup row ''organizationName'') then lookup row ''organizationName''
               else JStr ''''),
            (''address'', if truthy (lookup row ''address'') then lookup row ''address'' else JStr ''''),
            (''email'', if truthy (lookup row ''email'') then lookup row ''email'' else JStr ''''),
            (''phone'', if truthy (lookup row ''phone'') then lookup row ''phone'' else JStr ''''),
            (''siteLogo'',
               if truthy (lookup row ''logo_url'') then lookup row ''logo_url'' else JStr ''''),
            (''faviconUrl'',
               if truthy (lookup row ''favicon_url'') then lookup row ''favicon_url'' else JStr ''''),
            (''socials'',
               case lookup row ''socials'' of
                 JUndefined \<Rightarrow> JObject []
               | JNull \<Rightarrow> JObject []
               | JArray xs \<Rightarrow> JArray xs
               | JObject kv \<Rightarrow> JObject kv
               | _ \<Rightarrow> (case JSON_parse B (lookup row ''socials'') of
                          Some parsed \<Rightarrow> parsed
                        | None \<Rightarrow> JObject []))]))"
proof (intro conjI impI)
  assume "pool ''SELECT * FROM contact_info LIMIT 1'' = Inr []"
  then have "formattedContact B (settled pool ''SELECT * FROM contact_info LIMIT 1'') = Some JNull"
    by (simp add: settled_def formattedContact_def)
  then show "\<exists>body. all_data B pool = Json200 (JObject body) \<and> lookup body ''contactInfo'' = JNull"
    by (rule all_data_contact)
next
  assume "pool ''SELECT * FROM contact_info LIMIT 1'' = Inr (row # rest)"
  then have "formattedContact B (settled pool ''SELECT * FROM contact_info LIMIT 1'') =
      Some (JObject
           [(''organizationName'',
               if truthy (lookup row ''organizationName'') then lookup row ''organizationName''
               else JStr ''''),
            (''address'', if truthy (lookup row ''address'') then lookup row ''address'' else JStr ''''),
            (''email'', if truthy (lookup row ''email'') then lookup row ''email'' else JStr ''''),
            (''phone'', if truthy (lookup row ''phone'') then lookup row ''phone'' else JStr ''''),
            (''siteLogo'',
               if truthy (lookup row ''logo_url'') then lookup row ''logo_url'' else JStr ''''),
            (''faviconUrl'',
               if truthy (lookup row ''favicon_url'') then lookup row ''favicon_url'' else JStr ''''),
            (''socials'',
               case lookup row ''socials'' of
                 JUndefined \<Rightarrow> JObject []
               | JNull \<Rightarrow> JObject []
               | JArray xs \<Rightarrow> JArray xs
               | JObject kv \<Rightarrow> JObject kv
               | _ \<Rightarrow> (case JSON_parse B (lookup row ''socials'') of
                          Some parsed \<Rightarrow> parsed
                        | None \<Rightarrow> JObject []))])"
    by (simp add: settled_def formattedContact_def formatContactFromRow_explicit own_def
        cong: jsval.case_cong)
  then show "\<exists>body. all_data B pool = Json200 (JObject body) \<and>
         lookup body ''contactInfo'' = JObject
           [(''organizationName'',
               if truthy (lookup row ''organizationName'') then lookup row ''organizationName''
               else JStr ''''),
            (''address'', if truthy (lookup row ''address'') then lookup row ''address'' else JStr ''''),
            (''email'', if truthy (lookup row ''email'') then lookup row ''email'' else JStr ''''),
            (''phone'', if truthy (lookup row ''phone'') then lookup row ''phone'' else JStr ''''),
            (''siteLogo'',
               if truthy (lookup row ''logo_url'') then lookup row ''logo_url'' else JStr ''''),
            (''faviconUrl'',
               if truthy (lookup row ''favicon_url'') then lookup row ''favicon_url'' else JStr ''''),
            (''socials'',
               case lookup row ''socials'' of
                 JUndefined \<Rightarrow> JObject []
               | JNull \<Rightarrow> JObject []
               | JArray xs \<Rightarrow> JArray xs
               | JObject kv \<Rightarrow> JObject kv
               | _ \<Rightarrow> (case JSON_parse B (lookup row ''socials'') of
                          Some parsed \<Rightarrow> parsed
                        | None \<Rightarrow> JObject []))]"
    by (rule all_data_contact)
qed

text \<open>
  A store whose every table is empty; a store whose contact row holds an organisation
  name, an empty address, a null email and its socials as an object; and a store whose
  contact row holds its socials as the text \<^verbatim>\<open>[]\<close>.
\<close>

theorem contactInfo_null_or_projection_witness:
  "(\<exists>body. all_data example_builtins (\<lambda>q. Inr []) = Json200 (JObject body)
      \<and> lookup body ''contactInfo'' = JNull)
   \<and> (\<exists>body. all_data example_builtins
        (\<lambda>q. if q = ''SELECT * FROM contact_info LIMIT 1''
              then Inr [[(''organizationName'', JStr ''PWMOI''), (''address'', JStr ''''),
                         (''email'', JNull), (''logo_url'', JStr ''logo.png''),
                         (''socials'', JObject [(''facebook'', JStr ''fb.com/pwmoi'')])]]
              else Inr []) = Json200 (JObject body)
      \<and> lookup body ''contactInfo'' = JObject
           [(''organizationName'', JStr ''PWMOI''),
            (''address'', JStr ''''),
            (''email'', JStr ''''),
            (''phone'', JStr ''''),
            (''siteLogo'', JStr ''logo.png''),
            (''faviconUrl'', JStr ''''),
            (''socials'', JObject [(''facebook'', JStr ''fb.com/pwmoi'')])])
   \<and> (\<exists>body. all_data example_builtins
        (\<lambda>q. if q = ''SELECT * FROM contact_info LIMIT 1''
              then Inr [[(''phone'', JStr ''021''), (''socials'', JStr ''[]'')]]
              else Inr []) = Json200 (JObject body)
      \<and> lookup body ''contactInfo'' = JObject
           [(''organizationName'', JStr ''''),
            (''address'', JStr ''''),
            (''email'', JStr ''''),
            (''phone'', JStr ''021''),
            (''siteLogo'', JStr ''''),
            (''faviconUrl'', JStr ''''),
            (''socials'', JArray [])])"
proof (intro conjI)
  from contactInfo_null_or_projection [where pool = "\<lambda>q. Inr []" and B = example_builtins]
  show "\<exists>body. all_data example_builtins (\<lambda>q. Inr []) = Json200 (JObject body)
      \<and> lookup body ''contactInfo'' = JNull"
    by simp
next
  let ?row = "[(''organizationName'', JStr ''PWMOI''), (''address'', JStr ''''),
                         (''email'', JNull), (''logo_url'', JStr ''logo.png''),
                         (''socials'', JObject [(''facebook'', JStr ''fb.com/pwmoi'')])]"
  let ?pool = "\<lambda>q. if q = ''SELECT * FROM contact_info LIMIT 1'' then Inr [?row] else Inr []"
  from contactInfo_null_or_projection
    [where pool = ?pool and row = ?row and rest = "[]" and B = example_builtins]
  show "\<exists>body. all_data example_builtins ?pool = Json200 (JObject body)
      \<and> lookup body ''contactInfo'' = JObject
           [(''organizationName'', JStr ''PWMOI''),
            (''address'', JStr ''''),
            (''email'', JStr ''''),
            (''phone'', JStr ''''),
            (''siteLogo'', JStr ''logo.png''),
            (''faviconUrl'', JStr ''''),
            (''socials'', JObject [(''facebook'', JStr ''fb.com/pwmoi'')])]"
    by (simp add: lookup_Cons lookup_Nil)
next
  let ?row = "[(''phone'', JStr ''021''), (''socials'', JStr ''[]'')]"
  let ?pool = "\<lambda>q. if q = ''SELECT * FROM contact_info LIMIT 1'' then Inr [?row] else Inr []"
  from contactInfo_null_or_projection
    [where pool = ?pool and row = ?row and rest = "[]" and B = example_builtins]
  show "\<exists>body. all_data example_builtins ?pool = Json200 (JObject body)
      \<and> lookup body ''contactInfo'' = JObject
           [(''organizationName'', JStr ''''),
            (''address'', JStr ''''),
            (''email'', JStr ''''),
            (''phone'', JStr ''021''),
            (''siteLogo'', JStr ''''),
            (''faviconUrl'', JStr ''''),
            (''socials'', JArray [])]"
    by (simp add: lookup_Cons lookup_Nil example_builtins_def)
qed

text \<open>
  C9. For every site-profile row whose \<open>mission\<close> column holds a string that
  \<^verbatim>\<open>JSON.parse\<close> rejects, or holds nothing (absent or \<open>null\<close>), the aggregate answer is
  the 200 answer and its \<open>profileContent.mission\<close> is the empty list.
\<close>

theorem mission_defaults_to_empty_list:
  assumes "pool ''SELECT * FROM site_profile LIMIT 1'' = Inr (row # rest)"
    and "(\<exists>s. lookup row ''mission'' = JStr s \<and> JSON_parse B (JStr s) = None)
      \<or> lookup row ''mission'' = JUndefined \<or> lookup row ''mission'' = JNull"
  shows "\<exists>body profile. all_data B pool = Json200 (JObject body)
     \<and> lookup body ''profileContent'' = JObject profile
     \<and> lookup profile ''mission'' = JArray []"
proof -
  from assms(1) have s: "settled pool ''SELECT * FROM site_profile LIMIT 1'' = row # rest"
    by (simp add: settled_def)
  from formattedProfile_mission [OF assms(2), of rest] obtain profile where
    p: "formattedProfile B (row # rest) = JObject profile" "lookup profile ''mission'' = JArray []"
    by auto
  from all_data_profile [of B pool] s p show ?thesis by auto
qed

text \<open>The scenario of the specification: the mission stored as the text \<open>not-json\<close>.\<close>

theorem mission_defaults_to_empty_list_witness:
  "\<exists>body profile.
     all_data example_builtins
       (\<lambda>q. if q = ''SELECT * FROM site_profile LIMIT 1''
             then Inr [[(''about'', JStr ''PWMOI''), (''mission'', JStr ''not-json'')]]
             else Inr []) = Json200 (JObject body)
     \<and> lookup body ''profileContent'' = JObject profile
     \<and> lookup profile ''mission'' = JArray []"
proof -
  let ?pool = "\<lambda>q. if q = ''SELECT * FROM site_profile LIMIT 1''
             then Inr [[(''about'', JStr ''PWMOI''), (''mission'', JStr ''not-json'')]]
             else Inr []"
  let ?row = "[(''about'', JStr ''PWMOI''), (''mission'', JStr ''not-json'')]"
  have a: "?pool ''SELECT * FROM site_profile LIMIT 1'' = Inr (?row # [])" by simp
  have b: "(\<exists>s. lookup ?row ''mission'' = JStr s \<and> JSON_parse example_builtins (JStr s) = None)
      \<or> lookup ?row ''mission'' = JUndefined \<or> lookup ?row ''mission'' = JNull"
    by (simp add: lookup_Cons example_builtins_def)
  from mission_defaults_to_empty_list
    [where pool = ?pool and row = ?row and rest = "[]" and B = example_builtins, OF a b]
  show ?thesis .
qed

end
